theory Spec2Isabelle
  imports Main
begin

section \<open>The SPA request handler of \<open>simple_server.py\<close>\<close>

text \<open>
  \<open>SPAHandler\<close> subclasses the standard library's \<open>SimpleHTTPRequestHandler\<close> and
  overrides \<open>do_GET\<close> only. The override parses \<open>self.path\<close> with
  \<open>urllib.parse.urlparse\<close>, may replace \<open>self.path\<close> by \<open>/\<close>, and then runs the
  inherited \<open>do_GET\<close>.

  The request line is decoded as ISO-8859-1 by \<open>http.server\<close>, so \<open>self.path\<close> is a
  sequence of code points below 256: a \<^typ>\<open>string\<close>.

  The library routines the handler calls are embedded from CPython 3.12
  (\<open>Lib/urllib/parse.py\<close>, \<open>Lib/posixpath.py\<close>, \<open>Lib/genericpath.py\<close>,
  \<open>Lib/http/server.py\<close>). The parts of the library that depend on Unicode tables, on
  the \<open>ipaddress\<close> module or on the file system encoding are parameters, collected in
  the record \<open>library\<close>. Errors of the connection are not modelled.
\<close>

subsection \<open>Python string operations\<close>

definition startswith :: "string \<Rightarrow> string \<Rightarrow> bool" where
  \<comment> \<open>\<open>s.startswith(p)\<close>\<close>
  "startswith s p = (take (length p) s = p)"

definition endswith :: "string \<Rightarrow> string \<Rightarrow> bool" where
  \<comment> \<open>\<open>s.endswith(p)\<close>\<close>
  "endswith s p = (length p \<le> length s \<and> drop (length s - length p) s = p)"

definition endswith_any :: "string \<Rightarrow> string list \<Rightarrow> bool" where
  \<comment> \<open>\<open>s.endswith((p1, ..., pn))\<close>, the tuple form\<close>
  "endswith_any s ps = list_ex (endswith s) ps"

definition before :: "char \<Rightarrow> string \<Rightarrow> string" where
  \<comment> \<open>\<open>s.split(c, 1)[0]\<close>; it is \<open>s[:s.find(c)]\<close> when \<open>c in s\<close>, and \<open>s\<close> otherwise\<close>
  "before c s = takeWhile (\<lambda>x. x \<noteq> c) s"

definition after :: "char \<Rightarrow> string \<Rightarrow> string" where
  \<comment> \<open>\<open>s.split(c, 1)[1]\<close>, that is \<open>s[s.find(c)+1:]\<close>, when \<open>c in s\<close>\<close>
  "after c s = drop 1 (dropWhile (\<lambda>x. x \<noteq> c) s)"

definition rfind :: "char \<Rightarrow> string \<Rightarrow> nat" where
  \<comment> \<open>\<open>s.rfind(c)\<close> when \<open>c in s\<close>\<close>
  "rfind c s = length s - Suc (length (takeWhile (\<lambda>x. x \<noteq> c) (rev s)))"

fun split_on :: "char \<Rightarrow> string \<Rightarrow> string list" where
  \<comment> \<open>\<open>s.split(c)\<close>\<close>
  "split_on c [] = [[]]"
| "split_on c (x # xs) =
     (if x = c then [] # split_on c xs
      else (case split_on c xs of w # ws \<Rightarrow> (x # w) # ws | [] \<Rightarrow> [[x]]))"

fun join_with :: "char \<Rightarrow> string list \<Rightarrow> string" where
  \<comment> \<open>\<open>c.join(ws)\<close>\<close>
  "join_with c [] = []"
| "join_with c [w] = w"
| "join_with c (w # ws) = w @ c # join_with c ws"

definition isspace :: "char \<Rightarrow> bool" where
  \<comment> \<open>\<open>str.isspace\<close> on the code points below 256\<close>
  "isspace c = (of_char c \<in> set [9, 10, 11, 12, 13, 28, 29, 30, 31, 32, 133, 160 :: nat])"

definition rstrip :: "string \<Rightarrow> string" where
  \<comment> \<open>\<open>s.rstrip()\<close>\<close>
  "rstrip s = rev (dropWhile isspace (rev s))"

definition rstrip_char :: "char \<Rightarrow> string \<Rightarrow> string" where
  \<comment> \<open>\<open>s.rstrip(c)\<close>\<close>
  "rstrip_char c s = rev (dropWhile (\<lambda>x. x = c) (rev s))"

definition ascii_alpha :: "char \<Rightarrow> bool" where
  \<comment> \<open>\<open>c.isascii() and c.isalpha()\<close>\<close>
  "ascii_alpha c =
     (c \<in> set ''abcdefghijklmnopqrstuvwxyzABCDEFGHIJKLMNOPQRSTUVWXYZ'')"

definition lower :: "string \<Rightarrow> string" where
  \<comment> \<open>\<open>s.lower()\<close> on a string of \<open>scheme_chars\<close>: only A to Z change\<close>
  "lower s =
     map (\<lambda>c. if c \<in> set ''ABCDEFGHIJKLMNOPQRSTUVWXYZ''
               then char_of (of_char c + (32::nat)) else c) s"

subsection \<open>\<open>urllib.parse\<close>: \<open>urlsplit\<close> and \<open>urlparse\<close>\<close>

datatype error = ValueError

record library =
  bracketed_netloc_ok :: "string \<Rightarrow> bool"
    \<comment> \<open>\<open>_check_bracketed_netloc(netloc)\<close> returns without raising\<close>
  nfkc_netloc_ok :: "string \<Rightarrow> bool"
    \<comment> \<open>the NFKC test of \<open>_checknetloc\<close> on a netloc that is not ASCII does not raise\<close>
  pct_decode :: "string \<Rightarrow> string"
    \<comment> \<open>\<open>unquote(s, errors='surrogatepass')\<close>, with its fallback, on an \<open>s\<close> that has a \<open>%\<close>\<close>
  title_unencodable :: "string \<Rightarrow> bool"
    \<comment> \<open>the listing page titled with \<open>unquote(s)\<close> cannot be encoded in the file system
        encoding (\<open>UnicodeEncodeError\<close>), for an \<open>s\<close> that has a \<open>%\<close> or a character
        that is not ASCII\<close>

definition scheme_chars :: string where
  "scheme_chars =
     ''abcdefghijklmnopqrstuvwxyzABCDEFGHIJKLMNOPQRSTUVWXYZ0123456789+-.''"

definition uses_params :: "string list" where
  "uses_params = ['''', ''ftp'', ''hdl'', ''prospero'', ''http'', ''imap'',
                  ''https'', ''shttp'', ''rtsp'', ''rtsps'', ''rtspu'', ''sip'',
                  ''sips'', ''mms'', ''sftp'', ''tel'']"

definition c0_control_or_space :: "char \<Rightarrow> bool" where
  \<comment> \<open>membership in \<open>_WHATWG_C0_CONTROL_OR_SPACE\<close>: the code points 0 to 32\<close>
  "c0_control_or_space c = (of_char c \<le> (32::nat))"

definition unsafe_url_bytes :: "char list" where
  \<comment> \<open>\<open>_UNSAFE_URL_BYTES_TO_REMOVE\<close>: tab, carriage return, newline\<close>
  "unsafe_url_bytes = [CHR 0x09, CHR 0x0D, CHR 0x0A]"

definition splitnetloc :: "string \<Rightarrow> string \<times> string" where
  \<comment> \<open>\<open>_splitnetloc(url, 2)\<close>: the domain ends at the first of \<open>/?#\<close> from index 2 on\<close>
  "splitnetloc url =
     (takeWhile (\<lambda>c. c \<notin> set ''/?#'') (drop 2 url),
      dropWhile (\<lambda>c. c \<notin> set ''/?#'') (drop 2 url))"

definition checknetloc :: "library \<Rightarrow> string \<Rightarrow> bool" where
  \<comment> \<open>\<open>_checknetloc(netloc)\<close> returns without raising\<close>
  "checknetloc lib netloc =
     (if netloc = [] \<or> list_all (\<lambda>c. of_char c < (128::nat)) netloc then True
      else nfkc_netloc_ok lib netloc)"

definition urlsplit ::
  "library \<Rightarrow> string \<Rightarrow> error + (string \<times> string \<times> string \<times> string \<times> string)" where
  \<comment> \<open>\<open>urlsplit(url)\<close>: scheme, netloc, path, query, fragment\<close>
  "urlsplit lib url0 =
     (let url1 = dropWhile c0_control_or_space url0;
          url2 = filter (\<lambda>c. c \<notin> set unsafe_url_bytes) url1;
          has_scheme = (CHR '':'' \<in> set url2 \<and> before CHR '':'' url2 \<noteq> []
                        \<and> ascii_alpha (hd url2)
                        \<and> list_all (\<lambda>c. c \<in> set scheme_chars) (before CHR '':'' url2));
          scheme = (if has_scheme then lower (before CHR '':'' url2) else []);
          url3 = (if has_scheme then after CHR '':'' url2 else url2);
          has_netloc = (take 2 url3 = ''//'');
          netloc = (if has_netloc then fst (splitnetloc url3) else []);
          url4 = (if has_netloc then snd (splitnetloc url3) else url3);
          lb = (CHR ''['' \<in> set netloc);
          rb = (CHR '']'' \<in> set netloc);
          fragment = (if CHR ''#'' \<in> set url4 then after CHR ''#'' url4 else []);
          url5 = before CHR ''#'' url4;
          query = (if CHR ''?'' \<in> set url5 then after CHR ''?'' url5 else []);
          url6 = before CHR ''?'' url5
      in if has_netloc \<and> ((lb \<and> \<not> rb) \<or> (rb \<and> \<not> lb)) then Inl ValueError
         else if has_netloc \<and> lb \<and> rb \<and> \<not> bracketed_netloc_ok lib netloc then Inl ValueError
         else if \<not> checknetloc lib netloc then Inl ValueError
         else Inr (scheme, netloc, url6, query, fragment))"

definition splitparams :: "string \<Rightarrow> string \<times> string" where
  \<comment> \<open>\<open>_splitparams(url)\<close>, called only when \<open>';' in url\<close>\<close>
  "splitparams url =
     (if CHR ''/'' \<in> set url then
        (let k = rfind CHR ''/'' url in
         if CHR '';'' \<notin> set (drop k url) then (url, [])
         else (take k url @ before CHR '';'' (drop k url), after CHR '';'' (drop k url)))
      else (before CHR '';'' url, after CHR '';'' url))"

definition urlparse ::
  "library \<Rightarrow> string \<Rightarrow>
     error + (string \<times> string \<times> string \<times> string \<times> string \<times> string)" where
  \<comment> \<open>\<open>urlparse(url)\<close>: scheme, netloc, path, params, query, fragment\<close>
  "urlparse lib url =
     (case urlsplit lib url of
        Inl e \<Rightarrow> Inl e
      | Inr (scheme, netloc, url', query, fragment) \<Rightarrow>
          if scheme \<in> set uses_params \<and> CHR '';'' \<in> set url'
          then Inr (scheme, netloc, fst (splitparams url'), snd (splitparams url'),
                    query, fragment)
          else Inr (scheme, netloc, url', [], query, fragment))"

definition parsed_path :: "string \<times> string \<times> string \<times> string \<times> string \<times> string \<Rightarrow> string" where
  \<comment> \<open>the attribute \<open>.path\<close> of a \<open>ParseResult\<close>\<close>
  "parsed_path r = fst (snd (snd r))"

subsection \<open>\<open>posixpath\<close> and the file system\<close>

definition splitroot :: "string \<Rightarrow> string \<times> string" where
  \<comment> \<open>\<open>splitroot(p)\<close> without the drive, which is empty on POSIX: root and tail\<close>
  "splitroot p =
     (if take 1 p \<noteq> ''/'' then ([], p)
      else if take 1 (drop 1 p) \<noteq> ''/'' \<or> take 1 (drop 2 p) = ''/'' then (''/'', drop 1 p)
      else (take 2 p, drop 2 p))"

definition normpath_step :: "string \<Rightarrow> string list \<Rightarrow> string \<Rightarrow> string list" where
  \<comment> \<open>one round of the loop over \<open>comps\<close> in \<open>normpath\<close>\<close>
  "normpath_step initial_slashes new_comps word =
     (if word = [] \<or> word = ''.'' then new_comps
      else if word \<noteq> ''..'' \<or> (initial_slashes = [] \<and> new_comps = [])
              \<or> (new_comps \<noteq> [] \<and> last new_comps = ''..'')
      then new_comps @ [word]
      else if new_comps \<noteq> [] then butlast new_comps
      else new_comps)"

definition normpath :: "string \<Rightarrow> string" where
  \<comment> \<open>\<open>posixpath.normpath(path)\<close>\<close>
  "normpath p =
     (if p = [] then ''.''
      else (let initial_slashes = fst (splitroot p);
                comps = split_on CHR ''/'' (snd (splitroot p));
                new_comps = foldl (normpath_step initial_slashes) [] comps;
                p' = initial_slashes @ join_with CHR ''/'' new_comps
            in if p' = [] then ''.'' else p'))"

definition dirname :: "string \<Rightarrow> string" where
  \<comment> \<open>\<open>os.path.dirname(p)\<close>\<close>
  "dirname p =
     (let head = (if CHR ''/'' \<in> set p then take (Suc (rfind CHR ''/'' p)) p else [])
      in if head \<noteq> [] \<and> head \<noteq> replicate (length head) CHR ''/''
         then rstrip_char CHR ''/'' head else head)"

definition os_path_join :: "string \<Rightarrow> string \<Rightarrow> string" where
  \<comment> \<open>\<open>os.path.join(a, b)\<close>\<close>
  "os_path_join a b =
     (if startswith b ''/'' then b
      else if a = [] \<or> endswith a ''/'' then a @ b
      else a @ ''/'' @ b)"

datatype node = File | Dir | Special

record filesystem =
  stat :: "string \<Rightarrow> node option"
    \<comment> \<open>\<open>os.stat(p)\<close>: what the path resolves to (symbolic links followed), \<open>None\<close> when
        the call fails; \<open>Special\<close> is anything that is neither a regular file nor a
        directory\<close>
  unencodable :: "string \<Rightarrow> bool"
    \<comment> \<open>the path cannot be encoded for the operating system: it holds a lone surrogate,
        which only a decoded percent escape brings in. \<^typ>\<open>string\<close> has no such code
        point, so this field stands for the paths that hold one\<close>
  can_open :: "string \<Rightarrow> bool"
    \<comment> \<open>\<open>open(p, 'rb')\<close> does not raise \<open>OSError\<close>\<close>
  can_list :: "string \<Rightarrow> bool"
    \<comment> \<open>\<open>os.listdir(p)\<close> does not raise \<open>OSError\<close>\<close>
  mtime :: "string \<Rightarrow> int"
    \<comment> \<open>the time of last modification of the file, in whole seconds since the epoch,
        taken to lie in the range of \<open>datetime\<close>\<close>

definition bad_path :: "filesystem \<Rightarrow> string \<Rightarrow> bool" where
  \<comment> \<open>a call of the operating system on \<open>p\<close> raises \<open>ValueError\<close>: \<open>p\<close> holds a NUL
      (\<open>embedded null byte\<close>) or cannot be encoded (\<open>UnicodeEncodeError\<close>, a subclass)\<close>
  "bad_path fs p = (CHR 0x00 \<in> set p \<or> unencodable fs p)"

definition os_path_exists :: "filesystem \<Rightarrow> string \<Rightarrow> bool" where
  \<comment> \<open>\<open>os.path.exists(p)\<close>: \<open>os.stat\<close> raises neither \<open>OSError\<close> nor \<open>ValueError\<close>\<close>
  "os_path_exists fs p = (\<not> bad_path fs p \<and> stat fs p \<noteq> None)"

definition os_path_isdir :: "filesystem \<Rightarrow> string \<Rightarrow> bool" where
  \<comment> \<open>\<open>os.path.isdir(p)\<close>, false as well when \<open>os.stat\<close> raises\<close>
  "os_path_isdir fs p = (\<not> bad_path fs p \<and> stat fs p = Some Dir)"

definition os_path_isfile :: "filesystem \<Rightarrow> string \<Rightarrow> bool" where
  \<comment> \<open>\<open>os.path.isfile(p)\<close>, false as well when \<open>os.stat\<close> raises\<close>
  "os_path_isfile fs p = (\<not> bad_path fs p \<and> stat fs p = Some File)"

subsection \<open>\<open>http.server\<close>: the inherited static file handler\<close>

record handler =
  command :: string
  path :: string
  directory :: string
    \<comment> \<open>\<open>os.getcwd()\<close> when the handler was made: \<open>SPAHandler\<close> is given no directory\<close>
  if_modified_since :: "int option"
    \<comment> \<open>the time of the \<open>If-Modified-Since\<close> header, in seconds since the epoch, when
        \<open>send_head\<close> compares it with the file's: the header is there, \<open>If-None-Match\<close>
        is not, and the date parses with no zone or with UTC; \<open>None\<close> otherwise\<close>

datatype reply =
    MOVED_PERMANENTLY
  | NOT_MODIFIED
  | NOT_FOUND
  | NOT_IMPLEMENTED
  | OK_File string
  | OK_Listing string

text \<open>
  A \<^typ>\<open>reply\<close> is the status line that \<open>send_head\<close> or \<open>send_error\<close> writes.
  \<open>OK_File p\<close> is the 200 that comes with the open file \<open>p\<close>, \<open>OK_Listing p\<close> the 200
  that comes with the generated listing of the directory \<open>p\<close>; with every other reply
  \<open>send_head\<close> returns \<open>None\<close>. Headers and bodies are not modelled.
\<close>

definition unquote :: "library \<Rightarrow> string \<Rightarrow> string" where
  \<comment> \<open>\<open>urllib.parse.unquote\<close> as \<open>translate_path\<close> calls it\<close>
  "unquote lib s = (if CHR ''%'' \<notin> set s then s else pct_decode lib s)"

definition translate_path :: "library \<Rightarrow> handler \<Rightarrow> string \<Rightarrow> string" where
  \<comment> \<open>\<open>SimpleHTTPRequestHandler.translate_path\<close>\<close>
  "translate_path lib self p0 =
     (let p1 = before CHR ''?'' p0;
          p2 = before CHR ''#'' p1;
          trailing_slash = endswith (rstrip p2) ''/'';
          p3 = normpath (unquote lib p2);
          wordlist = filter (\<lambda>w. w \<noteq> []) (split_on CHR ''/'' p3);
          p4 = foldl (\<lambda>acc word.
                        if dirname word \<noteq> [] \<or> word = ''.'' \<or> word = ''..'' then acc
                        else os_path_join acc word)
                     (directory self) wordlist
      in if trailing_slash then p4 @ ''/'' else p4)"

definition index_pages :: "string list" where
  "index_pages = [''index.html'', ''index.htm'']"

definition title_fails :: "library \<Rightarrow> string \<Rightarrow> bool" where
  \<comment> \<open>\<open>'\n'.join(r).encode(enc, 'surrogateescape')\<close> in \<open>list_directory\<close> raises: the
      page holds \<open>unquote(self.path)\<close> and the names that \<open>os.listdir\<close> returned; these
      names and an ASCII title can always be encoded\<close>
  "title_fails lib s =
     (if CHR ''%'' \<notin> set s \<and> list_all (\<lambda>c. of_char c < (128::nat)) s then False
      else title_unencodable lib s)"

definition list_directory ::
  "library \<Rightarrow> filesystem \<Rightarrow> handler \<Rightarrow> string \<Rightarrow> error + reply" where
  \<comment> \<open>\<open>SimpleHTTPRequestHandler.list_directory\<close>: \<open>os.listdir\<close> under \<open>except OSError\<close>,
      then the page is built and encoded\<close>
  "list_directory lib fs self p =
     (if bad_path fs p then Inl ValueError
      else if \<not> can_list fs p then Inr NOT_FOUND
      else if title_fails lib (path self) then Inl ValueError
      else Inr (OK_Listing p))"

definition open_file :: "filesystem \<Rightarrow> handler \<Rightarrow> string \<Rightarrow> error + reply" where
  \<comment> \<open>the end of \<open>send_head\<close>, from the test for a trailing slash on: \<open>open\<close> stands
      under \<open>except OSError\<close>, so that its \<open>ValueError\<close> leaves \<open>send_head\<close>\<close>
  "open_file fs self p =
     (if endswith p ''/'' then Inr NOT_FOUND
      else if bad_path fs p then Inl ValueError
      else if \<not> can_open fs p then Inr NOT_FOUND
      else (case if_modified_since self of
              Some ims \<Rightarrow> if mtime fs p \<le> ims then Inr NOT_MODIFIED else Inr (OK_File p)
            | None \<Rightarrow> Inr (OK_File p)))"

definition send_head :: "library \<Rightarrow> filesystem \<Rightarrow> handler \<Rightarrow> error + reply" where
  \<comment> \<open>\<open>SimpleHTTPRequestHandler.send_head\<close>\<close>
  "send_head lib fs self =
     (let p = translate_path lib self (path self) in
      if os_path_isdir fs p then
        (case urlsplit lib (path self) of
           Inl e \<Rightarrow> Inl e
         | Inr parts \<Rightarrow>
             if \<not> endswith (fst (snd (snd parts))) ''/'' then Inr MOVED_PERMANENTLY
             else (case find (\<lambda>index. os_path_isfile fs (os_path_join p index)) index_pages of
                     Some index \<Rightarrow> open_file fs self (os_path_join p index)
                   | None \<Rightarrow> list_directory lib fs self p))
      else open_file fs self p)"

definition has_file :: "reply \<Rightarrow> bool" where
  \<comment> \<open>\<open>send_head\<close> returned a file object rather than \<open>None\<close>\<close>
  "has_file r = (case r of OK_File _ \<Rightarrow> True | OK_Listing _ \<Rightarrow> True | _ \<Rightarrow> False)"

type_synonym response = "reply \<times> bool"
  \<comment> \<open>the reply, and whether a file was copied to the client\<close>

definition SimpleHTTPRequestHandler_do_GET ::
  "library \<Rightarrow> filesystem \<Rightarrow> handler \<Rightarrow> error + response" where
  "SimpleHTTPRequestHandler_do_GET lib fs self =
     (case send_head lib fs self of
        Inl e \<Rightarrow> Inl e
      | Inr f \<Rightarrow> Inr (f, has_file f))"

definition SimpleHTTPRequestHandler_do_HEAD ::
  "library \<Rightarrow> filesystem \<Rightarrow> handler \<Rightarrow> error + response" where
  "SimpleHTTPRequestHandler_do_HEAD lib fs self =
     (case send_head lib fs self of
        Inl e \<Rightarrow> Inl e
      | Inr f \<Rightarrow> Inr (f, False))"

subsection \<open>\<open>SPAHandler.do_GET\<close>\<close>

record outcome =
  handler_after :: handler
    \<comment> \<open>the handler when the inherited \<open>do_GET\<close> is called: its \<open>path\<close> is the
        effective serving path\<close>
  exists_calls :: "string list"
    \<comment> \<open>the arguments of the calls of \<open>os.path.exists\<close> made by \<open>SPAHandler.do_GET\<close>,
        in order\<close>
  response :: response

definition super_do_GET ::
  "library \<Rightarrow> filesystem \<Rightarrow> handler \<Rightarrow> string list \<Rightarrow> error + outcome" where
  \<comment> \<open>\<open>return super().do_GET()\<close>\<close>
  "super_do_GET lib fs self calls =
     (case SimpleHTTPRequestHandler_do_GET lib fs self of
        Inl e \<Rightarrow> Inl e
      | Inr r \<Rightarrow> Inr \<lparr>handler_after = self, exists_calls = calls, response = r\<rparr>)"

definition do_GET :: "library \<Rightarrow> filesystem \<Rightarrow> handler \<Rightarrow> error + outcome" where
  \<comment> \<open>\<open>SPAHandler.do_GET\<close>; Python's \<open>and\<close> evaluates \<open>os.path.exists\<close> only when
      \<open>path != '/'\<close>\<close>
  "do_GET lib fs self =
     (case urlparse lib (path self) of
        Inl e \<Rightarrow> Inl e
      | Inr parsed \<Rightarrow>
          (let p = parsed_path parsed in
           if startswith p ''/assets/''
              \<or> endswith_any p [''.js'', ''.css'', ''.png'', ''.jpg'', ''.ico'', ''.svg'']
           then super_do_GET lib fs self []
           else if p \<noteq> ''/'' then
             (if \<not> os_path_exists fs (''.'' @ p)
              then super_do_GET lib fs (self\<lparr>path := ''/''\<rparr>) [''.'' @ p]
              else super_do_GET lib fs self [''.'' @ p])
           else super_do_GET lib fs self []))"

subsection \<open>Dispatch on the request method\<close>

text \<open>
  \<open>BaseHTTPRequestHandler.handle_one_request\<close>, after \<open>parse_request\<close> has set
  \<open>command\<close> and \<open>path\<close>, looks the method \<open>'do_' + self.command\<close> up and answers 501
  when the handler has none. \<open>SimpleHTTPRequestHandler\<close> defines \<open>do_GET\<close> and
  \<open>do_HEAD\<close>; \<open>SPAHandler\<close> overrides \<open>do_GET\<close> and adds no method.
\<close>

definition SimpleHTTPRequestHandler_handle ::
  "library \<Rightarrow> filesystem \<Rightarrow> handler \<Rightarrow> error + response" where
  "SimpleHTTPRequestHandler_handle lib fs self =
     (if command self = ''GET'' then SimpleHTTPRequestHandler_do_GET lib fs self
      else if command self = ''HEAD'' then SimpleHTTPRequestHandler_do_HEAD lib fs self
      else Inr (NOT_IMPLEMENTED, False))"

definition SPAHandler_handle ::
  "library \<Rightarrow> filesystem \<Rightarrow> handler \<Rightarrow> error + outcome" where
  "SPAHandler_handle lib fs self =
     (if command self = ''GET'' then do_GET lib fs self
      else if command self = ''HEAD'' then
        (case SimpleHTTPRequestHandler_do_HEAD lib fs self of
           Inl e \<Rightarrow> Inl e
         | Inr r \<Rightarrow> Inr \<lparr>handler_after = self, exists_calls = [], response = r\<rparr>)
      else Inr \<lparr>handler_after = self, exists_calls = [],
                response = (NOT_IMPLEMENTED, False)\<rparr>)"

subsection \<open>Names for the conditions of \<open>do_GET\<close>, and sample data\<close>

definition asset_rule :: "string \<Rightarrow> bool" where
  \<comment> \<open>the condition of the first \<open>if\<close> of \<open>SPAHandler.do_GET\<close>\<close>
  "asset_rule p =
     (startswith p ''/assets/''
      \<or> endswith_any p [''.js'', ''.css'', ''.png'', ''.jpg'', ''.ico'', ''.svg''])"

definition rewritten :: "filesystem \<Rightarrow> string \<Rightarrow> bool" where
  \<comment> \<open>the parsed path \<open>p\<close> fails the first \<open>if\<close> and satisfies the second\<close>
  "rewritten fs p = (\<not> asset_rule p \<and> p \<noteq> ''/'' \<and> \<not> os_path_exists fs (''.'' @ p))"

definition hexval :: "char \<Rightarrow> nat option" where
  "hexval c =
     (if c \<in> set ''0123456789'' then Some (of_char c - 48)
      else if c \<in> set ''abcdef'' then Some (of_char c - 87)
      else if c \<in> set ''ABCDEF'' then Some (of_char c - 55)
      else None)"

fun unquote_ascii :: "string \<Rightarrow> string" where
  \<comment> \<open>\<open>unquote\<close> on a string whose escapes are all below \<open>%80\<close>: a \<open>%\<close> with two
      hexadecimal digits becomes that character, any other \<open>%\<close> stays\<close>
  "unquote_ascii (c # a # b # cs) =
     (case (if c = CHR ''%'' then (hexval a, hexval b) else (None, None)) of
        (Some h, Some l) \<Rightarrow>
          if 16 * h + l < 128 then char_of (16 * h + l) # unquote_ascii cs
          else c # unquote_ascii (a # b # cs)
      | _ \<Rightarrow> c # unquote_ascii (a # b # cs))"
| "unquote_ascii (c # cs) = c # unquote_ascii cs"
| "unquote_ascii [] = []"

definition example_library :: library where
  \<comment> \<open>values for the library's parameters, for requests with no bracketed or non-ASCII
      host and no escape from \<open>%80\<close> up\<close>
  "example_library =
     \<lparr>bracketed_netloc_ok = (\<lambda>netloc. True), nfkc_netloc_ok = (\<lambda>netloc. True),
      pct_decode = unquote_ascii, title_unencodable = (\<lambda>s. False)\<rparr>"

definition fs_of :: "(string \<times> node) list \<Rightarrow> filesystem" where
  \<comment> \<open>a file system given by its entries, every file readable, every directory listable\<close>
  "fs_of entries =
     \<lparr>stat = map_of entries,
      unencodable = (\<lambda>p. False),
      can_open = (\<lambda>p. map_of entries p = Some File),
      can_list = (\<lambda>p. map_of entries p = Some Dir),
      mtime = (\<lambda>p. 0)\<rparr>"

definition bare_root :: filesystem where
  \<comment> \<open>the document root \<open>/srv/www\<close>, which is the working directory, with nothing in it\<close>
  "bare_root =
     fs_of [(''.'', Dir), (''./'', Dir), (''/srv/www'', Dir), (''/srv/www/'', Dir)]"

definition site :: filesystem where
  \<comment> \<open>the document root \<open>/srv/www\<close> holding \<open>index.html\<close>, \<open>about.html\<close>, a file named
      \<open>a b\<close> and a directory \<open>docs\<close>; each entry under both names the handler uses\<close>
  "site =
     fs_of [(''.'', Dir), (''./'', Dir), (''/srv/www'', Dir), (''/srv/www/'', Dir),
            (''./index.html'', File), (''/srv/www/index.html'', File),
            (''./about.html'', File), (''/srv/www/about.html'', File),
            (''./a b'', File), (''/srv/www/a b'', File),
            (''./docs'', Dir), (''/srv/www/docs'', Dir),
            (''./docs/'', Dir), (''/srv/www/docs/'', Dir)]"

definition request :: "string \<Rightarrow> string \<Rightarrow> handler" where
  \<comment> \<open>a handler whose request line has been parsed, serving \<open>/srv/www\<close>, with no
      \<open>If-Modified-Since\<close> header\<close>
  "request c p =
     \<lparr>command = c, path = p, directory = ''/srv/www'', if_modified_since = None\<rparr>"

section \<open>Properties\<close>

subsection \<open>When the inherited handler returns\<close>





lemma urlsplit_root: "urlsplit lib ''/'' = Inr ([], [], ''/'', [], [])"
  by (simp add: urlsplit_def Let_def c0_control_or_space_def unsafe_url_bytes_def
      before_def after_def ascii_alpha_def checknetloc_def)

lemma urlparse_root: "urlparse lib ''/'' = Inr ([], [], ''/'', [], [], [])"
  by (simp add: urlparse_def urlsplit_root)

lemma root_not_asset: "\<not> asset_rule ''/''"
  by (simp add: asset_rule_def startswith_def endswith_any_def endswith_def)



subsection \<open>The routing decision as a function of the parsed path\<close>

lemma do_GET_decision:
  assumes "urlparse lib (path self) = Inr parsed"
  shows "do_GET lib fs self =
           super_do_GET lib fs
             (if rewritten fs (parsed_path parsed) then self\<lparr>path := ''/''\<rparr> else self)
             (if asset_rule (parsed_path parsed) \<or> parsed_path parsed = ''/'' then []
              else [''.'' @ parsed_path parsed])"
  using assms by (auto simp: do_GET_def rewritten_def asset_rule_def Let_def)

subsection \<open>Asset paths\<close>



subsection \<open>Paths that are not assets\<close>



lemma existing_path_handed_on:
  assumes "urlparse lib (path self) = Inr parsed"
      and "\<not> asset_rule (parsed_path parsed)"
      and "os_path_exists fs (''.'' @ parsed_path parsed)"
  shows "do_GET lib fs self =
           (case SimpleHTTPRequestHandler_do_GET lib fs self of
              Inl e \<Rightarrow> Inl e
            | Inr resp \<Rightarrow>
                Inr \<lparr>handler_after = self,
                     exists_calls =
                       (if parsed_path parsed = ''/'' then [] else [''.'' @ parsed_path parsed]),
                     response = resp\<rparr>)"
  using do_GET_decision [OF assms(1), of fs] assms(2,3)
  by (simp add: rewritten_def super_do_GET_def)

text \<open>
  C3. The path component \<open>P\<close> of the request \<open>/about.html;v=1\<close> is \<open>/about.html\<close>,
  since \<open>urlparse\<close> cuts \<open>;v=1\<close> off as parameters. It does not match the asset rule and
  \<open>./about.html\<close> is a file, so \<open>do_GET\<close> does not rewrite; but it hands on
  \<open>self.path\<close>, which is not \<open>P\<close>, and the inherited handler, which keeps the
  parameters, answers "not found", whereas the request for \<open>P\<close> itself is answered with the
  file.
\<close>

theorem existing_file_with_params_not_served:
  "urlparse example_library ''/about.html;v=1'' =
     Inr ([], [], ''/about.html'', ''v=1'', [], []) \<and>
   \<not> asset_rule ''/about.html'' \<and>
   os_path_isfile site ''./about.html'' \<and>
   do_GET example_library site (request ''GET'' ''/about.html;v=1'') =
     Inr \<lparr>handler_after = request ''GET'' ''/about.html;v=1'',
          exists_calls = [''./about.html''], response = (NOT_FOUND, False)\<rparr> \<and>
   do_GET example_library site (request ''GET'' ''/about.html'') =
     Inr \<lparr>handler_after = request ''GET'' ''/about.html'',
          exists_calls = [''./about.html''],
          response = (OK_File ''/srv/www/about.html'', True)\<rparr>"
  by code_simp

subsection \<open>The root path\<close>




lemma before_Cons_hit: "before c (c # x) = []"
  by (simp add: before_def)








subsection \<open>Idempotence\<close>

text \<open>
  C5. For a fixed file system, running \<open>do_GET\<close> on the handler that a first run passed
  to the inherited handler returns, and passes the same handler on. When the first run
  rewrote the path, the path it produced is \<open>/\<close>, and the second run neither rewrites
  nor calls \<open>os.path.exists\<close>.
\<close>

theorem routing_idempotent:
  assumes "do_GET lib fs self = Inr r"
  shows "\<exists>r'. do_GET lib fs (handler_after r) = Inr r'
             \<and> handler_after r' = handler_after r
             \<and> response r' = response r
             \<and> (handler_after r \<noteq> self \<longrightarrow>
                    path (handler_after r) = ''/'' \<and> exists_calls r' = [])"
proof -
  from assms obtain parsed where parsed: "urlparse lib (path self) = Inr parsed"
    by (auto simp: do_GET_def split: sum.splits)
  let ?P = "parsed_path parsed"
  let ?h = "if rewritten fs ?P then self\<lparr>path := ''/''\<rparr> else self"
  from do_GET_decision [OF parsed, of fs] assms have
    resp: "SimpleHTTPRequestHandler_do_GET lib fs ?h = Inr (response r)"
    and after: "handler_after r = ?h"
    by (auto simp: super_do_GET_def split: sum.splits)
  show ?thesis
  proof (cases "rewritten fs ?P")
    case False
    with after assms show ?thesis by simp
  next
    case True
    with after have h: "handler_after r = self\<lparr>path := ''/''\<rparr>" by simp
    then have "urlparse lib (path (handler_after r)) = Inr ([], [], ''/'', [], [], [])"
      by (simp add: urlparse_root)
    from do_GET_decision [OF this, of fs] resp True h show ?thesis
      by (simp add: rewritten_def parsed_path_def super_do_GET_def)
  qed
qed

theorem routing_idempotent_witness:
  "do_GET example_library bare_root (request ''GET'' ''/missing/page'') =
     Inr \<lparr>handler_after = request ''GET'' ''/'', exists_calls = [''./missing/page''],
          response = (OK_Listing ''/srv/www/'', True)\<rparr> \<and>
   (\<exists>r'. do_GET example_library bare_root (request ''GET'' ''/'') = Inr r'
         \<and> handler_after r' = request ''GET'' ''/''
         \<and> response r' = (OK_Listing ''/srv/www/'', True)
         \<and> exists_calls r' = [])"
proof -
  let ?r = "\<lparr>handler_after = request ''GET'' ''/'', exists_calls = [''./missing/page''],
             response = (OK_Listing ''/srv/www/'', True)\<rparr>"
  have first: "do_GET example_library bare_root (request ''GET'' ''/missing/page'') = Inr ?r"
    by code_simp
  have changed: "handler_after ?r \<noteq> request ''GET'' ''/missing/page''"
    by (simp add: request_def)
  from routing_idempotent [OF first] changed first show ?thesis by auto
qed

subsection \<open>The path the routing decision is taken on\<close>

lemma before_excludes: "c \<notin> set (before c s)"
  by (auto simp: before_def dest: set_takeWhileD)

lemma set_before: "set (before c s) \<subseteq> set s"
  by (auto simp: before_def dest: set_takeWhileD)

lemma guarded_Inr:
  "(if a then Inl e1 else if b then Inl e2 else if c then Inl e3 else Inr y) = Inr x
   \<Longrightarrow> x = y"
  by (simp split: if_splits)

lemma urlsplit_path_delimiters:
  assumes "urlsplit lib u = Inr (sc, nl, p, q, f)"
  shows "CHR ''?'' \<notin> set p \<and> CHR ''#'' \<notin> set p"
proof -
  from guarded_Inr [OF assms [unfolded urlsplit_def Let_def]]
  obtain v where p: "p = before CHR ''?'' (before CHR ''#'' v)"
    by blast
  have "CHR ''#'' \<notin> set (before CHR ''#'' v)" by (rule before_excludes)
  with set_before [of "CHR ''?''" "before CHR ''#'' v"] have "CHR ''#'' \<notin> set p"
    unfolding p by blast
  moreover have "CHR ''?'' \<notin> set p" unfolding p by (rule before_excludes)
  ultimately show ?thesis by simp
qed

lemma set_splitparams: "set (fst (splitparams u)) \<subseteq> set u"
proof -
  have "set (take k u @ before c (drop k u)) \<subseteq> set u" for k c
    using set_take_subset [of k u] set_drop_subset [of k u] set_before [of c "drop k u"]
    by auto
  then show ?thesis
    using set_before [of "CHR '';''" u] by (auto simp: splitparams_def Let_def)
qed

lemma urlparse_path_delimiters:
  assumes "urlparse lib u = Inr parsed"
  shows "CHR ''?'' \<notin> set (parsed_path parsed) \<and> CHR ''#'' \<notin> set (parsed_path parsed)"
proof -
  from assms obtain sc nl p q f where
    split: "urlsplit lib u = Inr (sc, nl, p, q, f)"
    and path: "parsed_path parsed = p \<or> parsed_path parsed = fst (splitparams p)"
    by (auto simp: urlparse_def parsed_path_def split: sum.splits if_splits)
  from urlsplit_path_delimiters [OF split] set_splitparams [of p] path
  show ?thesis by auto
qed

text \<open>
  C6. The file \<open>a b\<close> is in the document root, and the request for \<open>/a%20b\<close> names it:
  the inherited handler, which decodes percent escapes in \<open>translate_path\<close>, answers
  that request with the file. \<open>SPAHandler.do_GET\<close> takes its decision on the path
  component as \<open>urlparse\<close> returns it, escapes not decoded: it asks \<open>os.path.exists\<close>
  about \<open>./a%20b\<close>, rewrites the path to \<open>/\<close>, and the answer is \<open>index.html\<close>.
\<close>

theorem percent_escape_not_decoded:
  "os_path_isfile site ''./a b'' \<and>
   SimpleHTTPRequestHandler_do_GET example_library site (request ''GET'' ''/a%20b'') =
     Inr (OK_File ''/srv/www/a b'', True) \<and>
   do_GET example_library site (request ''GET'' ''/a%20b'') =
     Inr \<lparr>handler_after = request ''GET'' ''/'', exists_calls = [''./a%20b''],
          response = (OK_File ''/srv/www/index.html'', True)\<rparr>"
  by code_simp

subsection \<open>Calls of \<open>os.path.exists\<close>\<close>




subsection \<open>Directories\<close>

lemma existing_directory_handed_on:
  assumes "urlparse lib (path self) = Inr parsed"
      and "\<not> asset_rule (parsed_path parsed)"
      and "os_path_isdir fs (''.'' @ parsed_path parsed)"
  shows "os_path_exists fs (''.'' @ parsed_path parsed)"
    and "do_GET lib fs self =
           (case SimpleHTTPRequestHandler_do_GET lib fs self of
              Inl e \<Rightarrow> Inl e
            | Inr resp \<Rightarrow>
                Inr \<lparr>handler_after = self,
                     exists_calls =
                       (if parsed_path parsed = ''/'' then [] else [''.'' @ parsed_path parsed]),
                     response = resp\<rparr>)"
proof -
  from assms(3) show ex: "os_path_exists fs (''.'' @ parsed_path parsed)"
    by (simp add: os_path_isdir_def os_path_exists_def)
  from existing_path_handed_on [OF assms(1,2) ex] show "do_GET lib fs self =
           (case SimpleHTTPRequestHandler_do_GET lib fs self of
              Inl e \<Rightarrow> Inl e
            | Inr resp \<Rightarrow>
                Inr \<lparr>handler_after = self,
                     exists_calls =
                       (if parsed_path parsed = ''/'' then [] else [''.'' @ parsed_path parsed]),
                     response = resp\<rparr>)" .
qed

text \<open>
  C9. The path component \<open>P\<close> of the request \<open>/docs;v=1\<close> is \<open>/docs\<close>, since \<open>urlparse\<close>
  cuts \<open>;v=1\<close> off as parameters. It does not match the asset rule and \<open>./docs\<close> is a
  directory, which \<open>os.path.exists\<close> accepts, so \<open>do_GET\<close> does not rewrite; but it hands
  on \<open>self.path\<close>, which is not \<open>P\<close>, and the inherited handler, which keeps the
  parameters, answers "not found", whereas the request for \<open>P\<close> itself reaches the
  directory and is redirected to \<open>/docs/\<close>.
\<close>

theorem existing_directory_with_params_not_served:
  "urlparse example_library ''/docs;v=1'' = Inr ([], [], ''/docs'', ''v=1'', [], []) \<and>
   \<not> asset_rule ''/docs'' \<and>
   os_path_isdir site ''./docs'' \<and>
   do_GET example_library site (request ''GET'' ''/docs;v=1'') =
     Inr \<lparr>handler_after = request ''GET'' ''/docs;v=1'',
          exists_calls = [''./docs''], response = (NOT_FOUND, False)\<rparr> \<and>
   do_GET example_library site (request ''GET'' ''/docs'') =
     Inr \<lparr>handler_after = request ''GET'' ''/docs'',
          exists_calls = [''./docs''], response = (MOVED_PERMANENTLY, False)\<rparr>"
  by code_simp

subsection \<open>Other request methods\<close>

text \<open>
  C10. For a request whose method is not \<open>GET\<close>, \<open>SPAHandler\<close> does what
  \<open>SimpleHTTPRequestHandler\<close> does with the same handler: the handler, and so
  \<open>self.path\<close>, is unchanged, \<open>os.path.exists\<close> is not called by \<open>SPAHandler\<close>, and the
  response is the one of the inherited handler (for \<open>HEAD\<close> that of \<open>do_HEAD\<close>, for a
  method the class does not define the 501 of \<open>handle_one_request\<close>).
\<close>

theorem other_methods_not_rewritten:
  assumes "command self \<noteq> ''GET''"
  shows "SPAHandler_handle lib fs self =
           (case SimpleHTTPRequestHandler_handle lib fs self of
              Inl e \<Rightarrow> Inl e
            | Inr resp \<Rightarrow>
                Inr \<lparr>handler_after = self, exists_calls = [], response = resp\<rparr>)"
  using assms by (simp add: SPAHandler_handle_def SimpleHTTPRequestHandler_handle_def)

theorem other_methods_not_rewritten_witness:
  "SPAHandler_handle example_library bare_root (request ''HEAD'' ''/missing/page'') =
     Inr \<lparr>handler_after = request ''HEAD'' ''/missing/page'', exists_calls = [],
          response = (NOT_FOUND, False)\<rparr> \<and>
   SPAHandler_handle example_library bare_root (request ''POST'' ''/missing/page'') =
     Inr \<lparr>handler_after = request ''POST'' ''/missing/page'', exists_calls = [],
          response = (NOT_IMPLEMENTED, False)\<rparr> \<and>
   do_GET example_library bare_root (request ''GET'' ''/missing/page'') =
     Inr \<lparr>handler_after = request ''GET'' ''/'', exists_calls = [''./missing/page''],
          response = (OK_Listing ''/srv/www/'', True)\<rparr>"
proof -
  have head: "command (request ''HEAD'' ''/missing/page'') \<noteq> ''GET''"
    by (simp add: request_def)
  have post: "command (request ''POST'' ''/missing/page'') \<noteq> ''GET''"
    by (simp add: request_def)
  have h: "SimpleHTTPRequestHandler_handle example_library bare_root
             (request ''HEAD'' ''/missing/page'') = Inr (NOT_FOUND, False)"
    by code_simp
  have p: "SimpleHTTPRequestHandler_handle example_library bare_root
             (request ''POST'' ''/missing/page'') = Inr (NOT_IMPLEMENTED, False)"
    by code_simp
  have g: "do_GET example_library bare_root (request ''GET'' ''/missing/page'') =
     Inr \<lparr>handler_after = request ''GET'' ''/'', exists_calls = [''./missing/page''],
          response = (OK_Listing ''/srv/www/'', True)\<rparr>"
    by code_simp
  from other_methods_not_rewritten [OF head, of example_library bare_root]
       other_methods_not_rewritten [OF post, of example_library bare_root] h p g
  show ?thesis by simp
qed

subsection \<open>The response when the fallback document is missing\<close>






end
